theory Spec2Isabelle
  imports Main "HOL-Library.Sublist"
begin

section \<open>Text\<close>

text \<open>
  The plugin works on JavaScript strings, sequences of UTF-16 code units. The model has
  the code units below 256 (\<^typ>\<open>char\<close>), which covers ASCII and Latin-1 text; a
  \<^typ>\<open>string\<close> is a list of them. Characters that Isabelle's string literals cannot
  hold are written by their code.
\<close>

abbreviation nl :: char where
  "nl \<equiv> CHR 0x0A"

abbreviation backslash :: char where
  "backslash \<equiv> CHR 0x5C"

abbreviation dollar :: char where
  "dollar \<equiv> CHR ''$''"

abbreviation ampersand :: char where
  "ampersand \<equiv> CHR ''&''"

abbreviation backtick :: char where
  "backtick \<equiv> CHR 0x60"

abbreviation apostrophe :: char where
  "apostrophe \<equiv> CHR 0x27"

abbreviation dquote :: char where
  "dquote \<equiv> CHR 0x22"

text \<open>
  A regular expression with the flag \<open>i\<close> (and without \<open>u\<close>) compares two code units
  after \<open>Canonicalize\<close>, which maps a code unit to its upper case when that is a single
  code unit. Below 256 these are the letters \<open>a\<close>..\<open>z\<close> and the Latin-1 letters
  0xE0..0xFE without the division sign 0xF7. The code units 0xB5 and 0xFF have an
  upper case beyond 255 that no other code unit below 256 shares, and 0xDF has none of
  one code unit, so all three stay as they are.
\<close>

definition lower_case_units :: string where
  "lower_case_units = ''abcdefghijklmnopqrstuvwxyz'' @
     [CHR 0xE0, CHR 0xE1, CHR 0xE2, CHR 0xE3, CHR 0xE4, CHR 0xE5, CHR 0xE6, CHR 0xE7,
      CHR 0xE8, CHR 0xE9, CHR 0xEA, CHR 0xEB, CHR 0xEC, CHR 0xED, CHR 0xEE, CHR 0xEF,
      CHR 0xF0, CHR 0xF1, CHR 0xF2, CHR 0xF3, CHR 0xF4, CHR 0xF5, CHR 0xF6,
      CHR 0xF8, CHR 0xF9, CHR 0xFA, CHR 0xFB, CHR 0xFC, CHR 0xFD, CHR 0xFE]"

definition upper_case_units :: string where
  "upper_case_units = ''ABCDEFGHIJKLMNOPQRSTUVWXYZ'' @
     [CHR 0xC0, CHR 0xC1, CHR 0xC2, CHR 0xC3, CHR 0xC4, CHR 0xC5, CHR 0xC6, CHR 0xC7,
      CHR 0xC8, CHR 0xC9, CHR 0xCA, CHR 0xCB, CHR 0xCC, CHR 0xCD, CHR 0xCE, CHR 0xCF,
      CHR 0xD0, CHR 0xD1, CHR 0xD2, CHR 0xD3, CHR 0xD4, CHR 0xD5, CHR 0xD6,
      CHR 0xD8, CHR 0xD9, CHR 0xDA, CHR 0xDB, CHR 0xDC, CHR 0xDD, CHR 0xDE]"

definition canonicalize :: "char \<Rightarrow> char" where
  "canonicalize c =
     (case map_of (zip lower_case_units upper_case_units) c of Some u \<Rightarrow> u | None \<Rightarrow> c)"

text \<open>
  \<open>String.prototype.trim\<close> removes white space and line terminators from both ends.
  Below 256 these are TAB, LF, VT, FF, CR, the space and the no-break space.
\<close>

definition is_white_space :: "char \<Rightarrow> bool" where
  "is_white_space c \<longleftrightarrow>
     c \<in> set [CHR 0x09, nl, CHR 0x0B, CHR 0x0C, CHR 0x0D, CHR '' '', CHR 0xA0]"

definition trim :: "string \<Rightarrow> string" where
  "trim s = rev (dropWhile is_white_space (rev (dropWhile is_white_space s)))"

section \<open>The section pattern\<close>

text \<open>
  \<^verbatim>\<open>section.replace(/[.*+?^${}()|[\]\\]/g, "\\$&")\<close> puts a backslash before every
  character of the class. \<open>in_escape_class\<close> is the class as the source writes it;
  \<open>is_syntax_character\<close> is the \<open>SyntaxCharacter\<close> production of the ECMAScript
  pattern grammar, the characters that are operators when they stand unescaped.
\<close>

definition in_escape_class :: "char \<Rightarrow> bool" where
  "in_escape_class c \<longleftrightarrow> c \<in> set (''.*+?^${}()|[]'' @ [backslash])"

definition is_syntax_character :: "char \<Rightarrow> bool" where
  "is_syntax_character c \<longleftrightarrow> c \<in> set (''^$'' @ [backslash] @ ''.*+?()[]{}|'')"

fun escapeSection :: "string \<Rightarrow> string" where
  "escapeSection [] = []"
| "escapeSection (c # cs) =
     (if in_escape_class c then backslash # c # escapeSection cs else c # escapeSection cs)"

text \<open>
  The pattern is \<^verbatim>\<open>## ${safeSection}[\s\S]*?(?=\n## |$)\<close> with the flag \<open>i\<close>. Its head
  \<^verbatim>\<open>## ${safeSection}\<close> is read as pattern text: a character that is no syntax
  character stands for itself, a backslash before a syntax character is an identity escape
  and stands for that character. Anything else in the head (an operator, a class escape)
  is outside the fragment modelled here and reported as such; that this never happens is
  \<open>new_sectionRegex_escapeSection\<close> below. The value of a pattern is the sequence of
  characters its head stands for; the tail is fixed and interpreted by \<open>match_at\<close>.
\<close>

datatype error = ReadFailed | WriteFailed | UnmodelledPattern

fun pattern_literals :: "string \<Rightarrow> string option" where
  "pattern_literals [] = Some []"
| "pattern_literals (c # cs) =
     (if c = backslash then
        (case cs of
           [] \<Rightarrow> None
         | d # ds \<Rightarrow>
             if is_syntax_character d then map_option ((#) d) (pattern_literals ds) else None)
      else if is_syntax_character c then None
      else map_option ((#) c) (pattern_literals cs))"

definition new_sectionRegex :: "string \<Rightarrow> string option" where
  "new_sectionRegex safeSection = pattern_literals (''## '' @ safeSection)"

text \<open>
  \<open>match_literal\<close> matches the head at the start of the input, comparing canonicalized
  code units, and returns the text it consumed and the rest.
\<close>

fun match_literal :: "string \<Rightarrow> string \<Rightarrow> (string \<times> string) option" where
  "match_literal [] s = Some ([], s)"
| "match_literal (p # ps) [] = None"
| "match_literal (p # ps) (c # cs) =
     (if canonicalize p = canonicalize c
      then map_option (\<lambda>(m, r). (c # m, r)) (match_literal ps cs)
      else None)"

text \<open>
  The lookahead \<^verbatim>\<open>(?=\n## |$)\<close>: the input continues with a newline, two hashes and a
  space, or it is at its end (there is no flag \<open>m\<close>, so \<open>$\<close> is the end of the input).
\<close>

definition lookahead :: "string \<Rightarrow> bool" where
  "lookahead s \<longleftrightarrow> match_literal (nl # ''## '') s \<noteq> None \<or> s = []"

text \<open>
  \<^verbatim>\<open>[\s\S]*?\<close> before the lookahead: the class holds every code unit, and the lazy
  star takes the fewest of them after which the lookahead succeeds.
\<close>

fun lazy_any :: "string \<Rightarrow> string \<times> string" where
  "lazy_any [] = ([], [])"
| "lazy_any (c # cs) =
     (if lookahead (c # cs) then ([], c # cs)
      else (case lazy_any cs of (m, r) \<Rightarrow> (c # m, r)))"

definition match_at :: "string \<Rightarrow> string \<Rightarrow> (string \<times> string) option" where
  "match_at lit s =
     (case match_literal lit s of
        None \<Rightarrow> None
      | Some (m, r) \<Rightarrow> (case lazy_any r of (m', r') \<Rightarrow> Some (m @ m', r')))"

text \<open>
  \<open>RegExp.prototype.exec\<close> without the flag \<open>g\<close> tries the start positions from the
  left. The result is the text before the match, the match and the text after it.
\<close>

fun regexp_exec :: "string \<Rightarrow> string \<Rightarrow> (string \<times> string \<times> string) option" where
  "regexp_exec lit [] = map_option (\<lambda>(m, r). ([], m, r)) (match_at lit [])"
| "regexp_exec lit (c # cs) =
     (case match_at lit (c # cs) of
        Some (m, r) \<Rightarrow> Some ([], m, r)
      | None \<Rightarrow> map_option (\<lambda>(b, m, r). (c # b, m, r)) (regexp_exec lit cs))"

text \<open>
  \<open>GetSubstitution\<close> expands the replacement text of \<open>String.prototype.replace\<close>:
  \<^verbatim>\<open>$$\<close> is a dollar sign, \<^verbatim>\<open>$&\<close> the match, \<^verbatim>\<open>$`\<close> the text before the match and
  \<^verbatim>\<open>$'\<close> the text after it. The pattern has no capture group, so \<^verbatim>\<open>$1\<close>, \<^verbatim>\<open>$<name>\<close> and
  every other use of the dollar sign stay as they are.
\<close>

fun getSubstitution :: "string \<Rightarrow> string \<Rightarrow> string \<Rightarrow> string \<Rightarrow> string" where
  "getSubstitution matched pre post [] = []"
| "getSubstitution matched pre post [c] = [c]"
| "getSubstitution matched pre post (c # d # ds) =
     (if c = dollar then
        (if d = dollar then dollar # getSubstitution matched pre post ds
         else if d = ampersand then matched @ getSubstitution matched pre post ds
         else if d = backtick then pre @ getSubstitution matched pre post ds
         else if d = apostrophe then post @ getSubstitution matched pre post ds
         else dollar # getSubstitution matched pre post (d # ds))
      else c # getSubstitution matched pre post (d # ds))"

text \<open>
  A replacement text holds a substitution when a dollar sign in it is followed by one of
  the four characters that \<open>GetSubstitution\<close> expands.
\<close>

fun has_substitution :: "string \<Rightarrow> bool" where
  "has_substitution [] = False"
| "has_substitution [c] = False"
| "has_substitution (c # d # ds) =
     ((c = dollar \<and> d \<in> set [dollar, ampersand, backtick, apostrophe])
      \<or> has_substitution (d # ds))"

definition string_replace :: "string \<Rightarrow> string \<Rightarrow> string \<Rightarrow> string" where
  "string_replace lit s replacement =
     (case regexp_exec lit s of
        None \<Rightarrow> s
      | Some (pre, matched, post) \<Rightarrow>
          pre @ getSubstitution matched pre post replacement @ post)"

text \<open>
  The section upsert of the \<open>soul.update\<close> handler, from the escaping of the name to the
  new text of the document.
\<close>

definition upsertSection :: "string \<Rightarrow> string \<Rightarrow> string \<Rightarrow> error + string" where
  "upsertSection existing section sectionContent =
     (let safeSection = escapeSection section;
          newSection = ''## '' @ section @ [nl, nl] @ sectionContent @ [nl]
      in case new_sectionRegex safeSection of
           None \<Rightarrow> Inl UnmodelledPattern
         | Some sectionRegex \<Rightarrow>
             if regexp_exec sectionRegex existing \<noteq> None
             then Inr (string_replace sectionRegex existing newSection)
             else Inr (existing @ nl # newSection))"

section \<open>The file system and the host\<close>

text \<open>
  The handlers use three calls of \<open>node:fs\<close>. The state they see is which paths hold an
  entry and with which content, which entries can be read, and at which paths a write
  succeeds. \<open>existsSync\<close> never throws; \<open>readFileSync\<close> throws when there is no entry
  or the entry cannot be read (no permission, a directory); \<open>writeFileSync\<close> throws when
  the path cannot be written (no permission, no parent directory) and replaces the whole
  content otherwise. A throw is the left summand of the result. The state does not change
  between two calls of one handler.
\<close>

record filesystem =
  contents :: "string \<rightharpoonup> string"
  readable :: "string \<Rightarrow> bool"
  writable :: "string \<Rightarrow> bool"

definition existsSync :: "filesystem \<Rightarrow> string \<Rightarrow> bool" where
  "existsSync fs p \<longleftrightarrow> contents fs p \<noteq> None"

definition readFileSync :: "filesystem \<Rightarrow> string \<Rightarrow> error + string" where
  "readFileSync fs p =
     (case contents fs p of
        None \<Rightarrow> Inl ReadFailed
      | Some s \<Rightarrow> if readable fs p then Inr s else Inl ReadFailed)"

definition writeFileSync :: "filesystem \<Rightarrow> string \<Rightarrow> string \<Rightarrow> error + filesystem" where
  "writeFileSync fs p d =
     (if writable fs p then Inr (fs\<lparr>contents := (contents fs)(p \<mapsto> d)\<rparr>)
      else Inl WriteFailed)"

text \<open>
  \<open>SESSIONS_DIR\<close> and \<open>GLOBAL_IDENTITY_DIR\<close> come from the environment and \<open>join\<close>
  from \<open>node:path\<close>; the model takes all three from the host.
\<close>

record host =
  join :: "string list \<Rightarrow> string"
  SESSIONS_DIR :: string
  GLOBAL_IDENTITY_DIR :: string

section \<open>The tools\<close>

record resolved =
  path :: string
  exists :: bool
  isGlobal :: bool

definition resolveRootFile :: "host \<Rightarrow> filesystem \<Rightarrow> string \<Rightarrow> string \<Rightarrow> resolved" where
  "resolveRootFile h fs sessionDir filename =
     (let globalPath = join h [GLOBAL_IDENTITY_DIR h, filename]
      in if existsSync fs globalPath
         then \<lparr>path = globalPath, exists = True, isGlobal = True\<rparr>
         else
           (let sessionPath = join h [sessionDir, filename]
            in if existsSync fs sessionPath
               then \<lparr>path = sessionPath, exists = True, isGlobal = False\<rparr>
               else \<lparr>path = sessionPath, exists = False, isGlobal = False\<rparr>))"

text \<open>
  A tool result is an object; the model keeps its properties as a list of names and
  values, so that the absence of a property can be stated. Every result of the two
  handlers is \<^verbatim>\<open>{ content: [{ type: "text", text }] }\<close>.
\<close>

datatype content_item = TextItem string

type_synonym tool_result = "(string \<times> content_item list) list"

definition text_result :: "string \<Rightarrow> tool_result" where
  "text_result t = [(''content'', [TextItem t])]"

definition soul_get :: "host \<Rightarrow> string \<Rightarrow> filesystem \<Rightarrow> error + tool_result" where
  "soul_get h sessionName fs =
     (let sessionDir = join h [SESSIONS_DIR h, sessionName];
          resolved = resolveRootFile h fs sessionDir ''SOUL.md''
      in if \<not> exists resolved then Inr (text_result ''No SOUL.md found.'')
         else
           (case readFileSync fs (path resolved) of
              Inl e \<Rightarrow> Inl e
            | Inr content \<Rightarrow>
                Inr (text_result
                  (''[Source: '' @ (if isGlobal resolved then ''global'' else ''session'')
                     @ '']'' @ [nl, nl] @ content))))"

section \<open>The context provider\<close>

record Metadata =
  source :: string
  priority :: nat
  location :: string

text \<open>
  A context part is \<^verbatim>\<open>{ content, role, metadata }\<close>; its first field is \<open>part_content\<close>
  here, \<open>content\<close> being the argument of \<open>soul.update\<close>. \<open>null\<close> is \<open>None\<close>.
\<close>

record ContextPart =
  part_content :: string
  role :: string
  metadata :: Metadata

text \<open>
  \<open>getContext\<close> tries the global file and then the session file. In each \<open>try\<close> block
  a throw of the read is caught and the block left; content that is empty after \<open>trim\<close>
  leaves it as well.
\<close>

definition getContext :: "host \<Rightarrow> filesystem \<Rightarrow> string \<Rightarrow> ContextPart option" where
  "getContext h fs session =
     (let globalPath = join h [GLOBAL_IDENTITY_DIR h, ''SOUL.md''];
          from_global =
            (if existsSync fs globalPath then
               (case readFileSync fs globalPath of
                  Inl e \<Rightarrow> None
                | Inr content \<Rightarrow>
                    if trim content \<noteq> [] then
                      Some \<lparr>part_content = ''## Soul (Global)'' @ [nl, nl] @ content,
                            role = ''system'',
                            metadata = \<lparr>source = ''soul'', priority = 8, location = ''global''\<rparr>\<rparr>
                    else None)
             else None)
      in case from_global of
           Some part \<Rightarrow> Some part
         | None \<Rightarrow>
             (let sessionPath = join h [SESSIONS_DIR h, session, ''SOUL.md'']
              in if existsSync fs sessionPath then
                   (case readFileSync fs sessionPath of
                      Inl e \<Rightarrow> None
                    | Inr content \<Rightarrow>
                        if trim content \<noteq> [] then
                          Some \<lparr>part_content = ''## Soul'' @ [nl, nl] @ content,
                                role = ''system'',
                                metadata =
                                  \<lparr>source = ''soul'', priority = 8, location = ''session''\<rparr>\<rparr>
                        else None)
                 else None))"

section \<open>The update tool\<close>

text \<open>
  The arguments of \<open>soul.update\<close>: each of the three properties is a string or missing.
  The handler tests them with \<open>if (content)\<close> and \<open>if (section && sectionContent)\<close>; a
  missing property and the empty string are both falsy.
\<close>

record update_args =
  content :: "string option"
  "section" :: "string option"
  sectionContent :: "string option"

definition truthy :: "string option \<Rightarrow> bool" where
  "truthy v \<longleftrightarrow> (case v of None \<Rightarrow> False | Some s \<Rightarrow> s \<noteq> [])"

definition default_document :: string where
  "default_document = ''# SOUL.md - Persona & Boundaries'' @ [nl, nl]"

definition guidance :: string where
  "guidance = ''Provide '' @ [apostrophe] @ ''content'' @ [apostrophe] @ '' or ''
     @ [apostrophe] @ ''section'' @ [apostrophe] @ ''+'' @ [apostrophe] @ ''sectionContent''
     @ [apostrophe]"

definition soul_update ::
  "host \<Rightarrow> string \<Rightarrow> update_args \<Rightarrow> filesystem \<Rightarrow> (error + tool_result) \<times> filesystem" where
  "soul_update h sessionName args fs =
     (let sessionDir = join h [SESSIONS_DIR h, sessionName];
          soulPath = join h [sessionDir, ''SOUL.md'']
      in if truthy (content args) then
           (case writeFileSync fs soulPath (the (content args)) of
              Inl e \<Rightarrow> (Inl e, fs)
            | Inr fs' \<Rightarrow> (Inr (text_result ''SOUL.md replaced entirely''), fs'))
         else if truthy (section args) \<and> truthy (sectionContent args) then
           (case (if existsSync fs soulPath then readFileSync fs soulPath
                  else Inr default_document) of
              Inl e \<Rightarrow> (Inl e, fs)
            | Inr existing \<Rightarrow>
                (case upsertSection existing (the (section args)) (the (sectionContent args)) of
                   Inl e \<Rightarrow> (Inl e, fs)
                 | Inr existing' \<Rightarrow>
                     (case writeFileSync fs soulPath existing' of
                        Inl e \<Rightarrow> (Inl e, fs)
                      | Inr fs' \<Rightarrow>
                          (Inr (text_result
                             (''SOUL.md section '' @ [dquote] @ the (section args) @ [dquote]
                                @ '' updated'')), fs'))))
         else (Inr (text_result guidance), fs))"

section \<open>Notions of the specification\<close>

text \<open>
  The text \<open>needle\<close> occurs in \<open>doc\<close>, letters compared without case: some suffix of
  \<open>doc\<close> begins with it. An occurrence may stand anywhere, also in the middle of a line
  or at the start of a longer word.
\<close>

definition occurs_in :: "string \<Rightarrow> string \<Rightarrow> bool" where
  "occurs_in needle doc \<longleftrightarrow>
     list_ex (\<lambda>t. prefix (map canonicalize needle) (map canonicalize t)) (suffixes doc)"

text \<open>
  The lines of a document, and its headings as the specification describes them: a line
  that consists of \<^verbatim>\<open>## \<close> and the name of the section, compared without case.
\<close>

fun lines_of :: "string \<Rightarrow> string list" where
  "lines_of [] = [[]]"
| "lines_of (c # cs) =
     (if c = nl then [] # lines_of cs
      else (case lines_of cs of [] \<Rightarrow> [[c]] | l # ls \<Rightarrow> (c # l) # ls))"

definition heading_line :: "string \<Rightarrow> string \<Rightarrow> bool" where
  "heading_line name l \<longleftrightarrow> map canonicalize l = map canonicalize (''## '' @ name)"

definition heading_count :: "string \<Rightarrow> string \<Rightarrow> nat" where
  "heading_count name d = length (filter (heading_line name) (lines_of d))"

text \<open>
  A text is blank when it is empty or all white space. The states of one tier: no file,
  a file whose read throws, a file with blank content.
\<close>

definition blank :: "string \<Rightarrow> bool" where
  "blank s \<longleftrightarrow> list_all is_white_space s"

definition read_throws :: "filesystem \<Rightarrow> string \<Rightarrow> bool" where
  "read_throws fs p \<longleftrightarrow> existsSync fs p \<and> \<not> readable fs p"

definition blank_file :: "filesystem \<Rightarrow> string \<Rightarrow> bool" where
  "blank_file fs p \<longleftrightarrow>
     (case contents fs p of None \<Rightarrow> False | Some s \<Rightarrow> readable fs p \<and> blank s)"

definition tier_silent :: "filesystem \<Rightarrow> string \<Rightarrow> bool" where
  "tier_silent fs p \<longleftrightarrow> \<not> existsSync fs p \<or> read_throws fs p \<or> blank_file fs p"

text \<open>
  The three cases in which the specification says that \<open>getContext\<close> returns \<open>null\<close>:
  no file at either tier; every tier that has a file has a blank one; the read throws
  at both tiers.
\<close>

definition stated_null_cases :: "filesystem \<Rightarrow> string \<Rightarrow> string \<Rightarrow> bool" where
  "stated_null_cases fs globalPath sessionPath \<longleftrightarrow>
     (\<not> existsSync fs globalPath \<and> \<not> existsSync fs sessionPath)
     \<or> ((existsSync fs globalPath \<longrightarrow> blank_file fs globalPath)
        \<and> (existsSync fs sessionPath \<longrightarrow> blank_file fs sessionPath))
     \<or> (read_throws fs globalPath \<and> read_throws fs sessionPath)"

section \<open>A host and file systems for the examples\<close>

text \<open>
  The host of the examples has the default directories of a user \<open>wopr\<close> and joins path
  segments with a slash. \<open>disk\<close> is a file system with the given files, all of them
  readable and every path writable; \<open>locked\<close> makes one path unreadable.
\<close>

fun plain_join :: "string list \<Rightarrow> string" where
  "plain_join [] = ''.''"
| "plain_join [p] = p"
| "plain_join (p # q # ps) = p @ ''/'' @ plain_join (q # ps)"

definition example_host :: host where
  "example_host =
     \<lparr>join = plain_join, SESSIONS_DIR = ''/home/wopr/wopr/sessions'',
      GLOBAL_IDENTITY_DIR = ''/data/identity''\<rparr>"

definition global_soul :: string where
  "global_soul = ''/data/identity/SOUL.md''"

definition session_soul :: string where
  "session_soul = ''/home/wopr/wopr/sessions/default/SOUL.md''"

definition disk :: "(string \<times> string) list \<Rightarrow> filesystem" where
  "disk entries = \<lparr>contents = map_of entries, readable = (\<lambda>p. True), writable = (\<lambda>p. True)\<rparr>"

definition locked :: "string \<Rightarrow> filesystem \<Rightarrow> filesystem" where
  "locked p fs = fs\<lparr>readable := (readable fs)(p := False)\<rparr>"

section \<open>Comparing code units\<close>

lemma canonicalize_cases: "canonicalize c = c \<or> canonicalize c \<in> set upper_case_units"
  by (auto simp: canonicalize_def split: option.splits dest!: map_of_SomeD set_zip_rightD)

lemma canonicalize_fixed:
  assumes "k \<notin> set upper_case_units" "k \<notin> set lower_case_units"
  shows "canonicalize k = canonicalize c \<longleftrightarrow> c = k"
proof -
  have "map_of (zip lower_case_units upper_case_units) k = None"
    using assms(2) by (auto simp: map_of_eq_None_iff dest: set_zip_leftD)
  then have k: "canonicalize k = k"
    by (simp add: canonicalize_def)
  show ?thesis
    using canonicalize_cases[of c] assms(1) k by auto
qed

lemma canonicalize_nl [simp]: "canonicalize nl = canonicalize c \<longleftrightarrow> c = nl"
  by (rule canonicalize_fixed) (simp_all add: upper_case_units_def lower_case_units_def)

lemma canonicalize_hash [simp]: "canonicalize (CHR ''#'') = canonicalize c \<longleftrightarrow> c = CHR ''#''"
  by (rule canonicalize_fixed) (simp_all add: upper_case_units_def lower_case_units_def)

lemma canonicalize_space [simp]: "canonicalize (CHR '' '') = canonicalize c \<longleftrightarrow> c = CHR '' ''"
  by (rule canonicalize_fixed) (simp_all add: upper_case_units_def lower_case_units_def)

section \<open>Matching the pattern\<close>

lemma match_literal_Some:
  "match_literal lit s = Some (m, r) \<longleftrightarrow> s = m @ r \<and> map canonicalize m = map canonicalize lit"
proof (induction lit s arbitrary: m rule: match_literal.induct)
  case (1 s)
  then show ?case by auto
next
  case (2 p ps)
  then show ?case by auto
next
  case (3 p ps c cs)
  then show ?case by (cases m) auto
qed

lemma match_literal_None:
  "match_literal lit s = None \<longleftrightarrow> \<not> prefix (map canonicalize lit) (map canonicalize s)"
  by (induction lit s rule: match_literal.induct) auto

lemma prefix_map_canonicalize_fixed:
  assumes "\<forall>k\<in>set xs. \<forall>c. canonicalize k = canonicalize c \<longleftrightarrow> c = k"
  shows "prefix (map canonicalize xs) (map canonicalize s) \<longleftrightarrow> prefix xs s"
  using assms
proof (induction xs arbitrary: s)
  case Nil
  then show ?case by simp
next
  case (Cons x xs)
  then show ?case by (cases s) auto
qed

lemma lookahead_iff: "lookahead s \<longleftrightarrow> s = [] \<or> prefix (nl # ''## '') s"
proof -
  have "prefix (map canonicalize (nl # ''## '')) (map canonicalize s) \<longleftrightarrow> prefix (nl # ''## '') s"
    by (rule prefix_map_canonicalize_fixed) simp
  then show ?thesis
    by (auto simp: lookahead_def match_literal_None)
qed

section \<open>Finding the first match\<close>

lemma occurs_in_Nil [simp]: "occurs_in needle [] \<longleftrightarrow> needle = []"
  by (simp add: occurs_in_def)

lemma occurs_in_Cons:
  "occurs_in needle (c # cs) \<longleftrightarrow>
     prefix (map canonicalize needle) (map canonicalize (c # cs)) \<or> occurs_in needle cs"
  by (auto simp: occurs_in_def)

lemma occurs_in_iff:
  "occurs_in needle doc \<longleftrightarrow>
     (\<exists>pre m post. doc = pre @ m @ post \<and> map canonicalize m = map canonicalize needle)"
proof (induction doc)
  case Nil
  then show ?case by auto
next
  case (Cons c cs)
  show ?case
  proof
    assume "occurs_in needle (c # cs)"
    then consider "prefix (map canonicalize needle) (map canonicalize (c # cs))"
      | "occurs_in needle cs"
      by (auto simp: occurs_in_Cons)
    then show "\<exists>pre m post. c # cs = pre @ m @ post \<and> map canonicalize m = map canonicalize needle"
    proof cases
      case 1
      then obtain m r where "match_literal needle (c # cs) = Some (m, r)"
        using match_literal_None[of needle "c # cs"] by (cases "match_literal needle (c # cs)") auto
      then have "c # cs = [] @ m @ r \<and> map canonicalize m = map canonicalize needle"
        by (simp add: match_literal_Some)
      then show ?thesis by blast
    next
      case 2
      then obtain pre m post where "cs = pre @ m @ post" "map canonicalize m = map canonicalize needle"
        using Cons.IH by blast
      then have "c # cs = (c # pre) @ m @ post \<and> map canonicalize m = map canonicalize needle"
        by simp
      then show ?thesis by blast
    qed
  next
    assume "\<exists>pre m post. c # cs = pre @ m @ post \<and> map canonicalize m = map canonicalize needle"
    then obtain pre m post where d: "c # cs = pre @ m @ post"
      and m: "map canonicalize m = map canonicalize needle"
      by blast
    show "occurs_in needle (c # cs)"
    proof (cases pre)
      case Nil
      with d m have "prefix (map canonicalize needle) (map canonicalize (c # cs))"
        by (metis append_Nil map_append prefixI)
      then show ?thesis by (simp add: occurs_in_Cons)
    next
      case (Cons a pre')
      with d have "cs = pre' @ m @ post" by simp
      with m have "occurs_in needle cs" using Cons.IH by blast
      then show ?thesis by (simp add: occurs_in_Cons)
    qed
  qed
qed

lemma occurs_in_append_left: "occurs_in needle ys \<Longrightarrow> occurs_in needle (xs @ ys)"
  by (induction xs) (auto simp: occurs_in_Cons)

lemma regexp_exec_None: "regexp_exec lit s = None \<longleftrightarrow> \<not> occurs_in lit s"
proof (induction s)
  case Nil
  then show ?case
    by (cases lit) (auto simp: match_at_def split: option.splits prod.splits)
next
  case (Cons c cs)
  have "match_at lit (c # cs) = None \<longleftrightarrow> \<not> prefix (map canonicalize lit) (map canonicalize (c # cs))"
    using match_literal_None[of lit "c # cs"]
    by (auto simp: match_at_def split: option.splits prod.splits)
  with Cons show ?case
    by (auto simp: occurs_in_Cons split: option.splits)
qed

lemma prefix_length_le_take:
  assumes "prefix xs (ys @ zs)" "length xs \<le> length ys + n"
  shows "prefix xs (ys @ take n zs)"
proof -
  from assms(1) have "xs = take (length xs) (ys @ zs)"
    by (metis append_eq_conv_conj prefixE)
  also have "\<dots> = take (length xs) (ys @ take n zs)"
    using assms(2) by (auto simp: min_def)
  finally show ?thesis
    by (metis take_is_prefix)
qed

lemma lazy_any_boundary:
  assumes "post = [] \<or> prefix (nl # ''## '') post"
    and "\<not> occurs_in (nl # ''## '') (body @ take 3 post)"
  shows "lazy_any (body @ post) = (body, post)"
  using assms(2)
proof (induction body)
  case Nil
  show ?case
  proof (cases post)
    case Nil
    then show ?thesis by simp
  next
    case (Cons a list)
    with assms(1) show ?thesis by (simp add: lookahead_iff)
  qed
next
  case (Cons c cs)
  have "\<not> prefix (nl # ''## '') (c # cs @ post)"
  proof
    assume "prefix (nl # ''## '') (c # cs @ post)"
    then have "prefix (nl # ''## '') ((c # cs) @ take 3 post)"
      using prefix_length_le_take[of "nl # ''## ''" "c # cs" post 3] by simp
    then have "prefix (map canonicalize (nl # ''## '')) (map canonicalize ((c # cs) @ take 3 post))"
      by (rule map_mono_prefix)
    then have "occurs_in (nl # ''## '') ((c # cs) @ take 3 post)"
      by (simp add: occurs_in_Cons)
    with Cons.prems show False by simp
  qed
  moreover have "\<not> occurs_in (nl # ''## '') (cs @ take 3 post)"
    using Cons.prems by (simp add: occurs_in_Cons)
  ultimately show ?case
    using Cons.IH by (simp add: lookahead_iff)
qed

lemma regexp_exec_first:
  assumes "map canonicalize h = map canonicalize lit"
    and "\<not> occurs_in lit (pre @ butlast h)"
  shows "regexp_exec lit (pre @ h @ rest) =
           Some (pre, h @ fst (lazy_any rest), snd (lazy_any rest))"
  using assms(2)
proof (induction pre)
  case Nil
  have m: "match_literal lit (h @ rest) = Some (h, rest)"
    using assms(1) by (simp add: match_literal_Some)
  then have "match_at lit (h @ rest) = Some (h @ fst (lazy_any rest), snd (lazy_any rest))"
    by (simp add: match_at_def split: prod.splits)
  then show ?case
    by (cases "h @ rest") (simp_all split: prod.splits)
next
  case (Cons c cs)
  have len: "length h = length lit"
    using assms(1) by (metis length_map)
  have "\<not> prefix (map canonicalize lit) (map canonicalize (c # cs @ h @ rest))"
  proof
    assume p: "prefix (map canonicalize lit) (map canonicalize (c # cs @ h @ rest))"
    have "c # cs @ h @ rest = ((c # cs) @ butlast h) @ (drop (length h - 1) h @ rest)"
      by (simp add: butlast_conv_take)
    then have "prefix (map canonicalize lit)
        (map canonicalize ((c # cs) @ butlast h) @ map canonicalize (drop (length h - 1) h @ rest))"
      using p by (metis map_append)
    then have "prefix (map canonicalize lit)
        (map canonicalize ((c # cs) @ butlast h) @ take 0 (map canonicalize (drop (length h - 1) h @ rest)))"
      by (rule prefix_length_le_take) (simp add: len)
    then have "prefix (map canonicalize lit) (map canonicalize ((c # cs) @ butlast h))"
      by simp
    then have "occurs_in lit ((c # cs) @ butlast h)"
      by (simp add: occurs_in_Cons)
    with Cons.prems show False by simp
  qed
  then have "match_at lit (c # cs @ h @ rest) = None"
    using match_literal_None[of lit "c # cs @ h @ rest"] by (simp add: match_at_def)
  moreover have "\<not> occurs_in lit (cs @ butlast h)"
    using Cons.prems by (simp add: occurs_in_Cons)
  ultimately show ?case
    using Cons.IH by simp
qed

section \<open>The replacement text and the escaped name\<close>

lemma getSubstitution_plain:
  "\<not> has_substitution r \<Longrightarrow> getSubstitution matched pre post r = r"
  by (induction matched pre post r rule: getSubstitution.induct) auto

lemma has_substitution_dollar: "has_substitution r \<Longrightarrow> dollar \<in> set r"
  by (induction r rule: has_substitution.induct) auto

lemma in_escape_class_iff: "in_escape_class c \<longleftrightarrow> is_syntax_character c"
  by (auto simp: in_escape_class_def is_syntax_character_def)

lemma pattern_literals_escapeSection: "pattern_literals (escapeSection s) = Some s"
  by (induction s) (auto simp: in_escape_class_iff is_syntax_character_def)

lemma new_sectionRegex_escapeSection: "new_sectionRegex (escapeSection s) = Some (''## '' @ s)"
  by (simp add: new_sectionRegex_def is_syntax_character_def pattern_literals_escapeSection)

section \<open>The section upsert\<close>

lemma upsertSection_append:
  assumes "\<not> occurs_in (''## '' @ S) D"
  shows "upsertSection D S B = Inr (D @ [nl] @ ''## '' @ S @ [nl, nl] @ B @ [nl])"
  using assms regexp_exec_None[of "''## '' @ S" D]
  by (simp add: upsertSection_def new_sectionRegex_escapeSection)

lemma upsertSection_replace:
  assumes "D = pre @ h @ body @ post"
    and "map canonicalize h = map canonicalize (''## '' @ S)"
    and "\<not> occurs_in (''## '' @ S) (pre @ butlast h)"
    and "post = [] \<or> prefix (nl # ''## '') post"
    and "\<not> occurs_in (nl # ''## '') (body @ take 3 post)"
    and "\<not> has_substitution (''## '' @ S @ [nl, nl] @ B @ [nl])"
  shows "upsertSection D S B = Inr (pre @ ''## '' @ S @ [nl, nl] @ B @ [nl] @ post)"
proof -
  have lazy: "lazy_any (body @ post) = (body, post)"
    using assms(4,5) by (rule lazy_any_boundary)
  have exec: "regexp_exec (''## '' @ S) D = Some (pre, h @ body, post)"
    using regexp_exec_first[OF assms(2,3), of "body @ post"] lazy assms(1) by simp
  have "getSubstitution (h @ body) pre post (''## '' @ S @ [nl, nl] @ B @ [nl])
      = ''## '' @ S @ [nl, nl] @ B @ [nl]"
    using assms(6) by (rule getSubstitution_plain)
  with exec show ?thesis
    by (simp add: upsertSection_def new_sectionRegex_escapeSection string_replace_def)
qed

lemma upsertSection_total: "\<exists>d. upsertSection D S B = Inr d"
  by (simp add: upsertSection_def new_sectionRegex_escapeSection Let_def)

lemma default_document_no_heading: "\<not> occurs_in (''## '' @ S) default_document"
  by (simp add: default_document_def occurs_in_Cons)

lemma trim_Nil_iff: "trim s = [] \<longleftrightarrow> blank s"
proof -
  let ?d = "dropWhile is_white_space s"
  have "(\<forall>x\<in>set ?d. is_white_space x) \<longleftrightarrow> (\<forall>x\<in>set s. is_white_space x)"
  proof
    assume all: "\<forall>x\<in>set ?d. is_white_space x"
    have "?d = []"
    proof (rule ccontr)
      assume "?d \<noteq> []"
      then have "\<not> is_white_space (hd ?d)" "hd ?d \<in> set ?d"
        by (simp_all add: hd_dropWhile del: dropWhile_eq_Nil_conv)
      with all show False by blast
    qed
    then show "\<forall>x\<in>set s. is_white_space x" by simp
  next
    assume "\<forall>x\<in>set s. is_white_space x"
    then show "\<forall>x\<in>set ?d. is_white_space x"
      by (blast dest: set_dropWhileD)
  qed
  then show ?thesis
    by (simp add: trim_def blank_def list_all_iff)
qed

section \<open>The paths of the example host\<close>

lemma example_paths:
  "join example_host [GLOBAL_IDENTITY_DIR example_host, ''SOUL.md''] = global_soul"
  "join example_host [join example_host [SESSIONS_DIR example_host, ''default''], ''SOUL.md'']
     = session_soul"
  "join example_host [SESSIONS_DIR example_host, ''default'', ''SOUL.md''] = session_soul"
  "global_soul \<noteq> session_soul"
  "session_soul \<noteq> global_soul"
  by (simp_all add: example_host_def global_soul_def session_soul_def)

section \<open>Replacing a section\<close>

text \<open>
  Claim C1. For a document with exactly one heading \<^verbatim>\<open>## S\<close>, the update of \<open>S\<close> is to
  put the new body in place of the old one and to leave the bytes before the heading and
  the bytes after the end boundary of the section as they were. The pattern has nothing
  after the escaped name and no anchor before \<^verbatim>\<open>## \<close>, so it matches the first place
  where the text \<^verbatim>\<open>## S\<close> stands, heading or not. The session file below has the
  headings \<^verbatim>\<open>## Goals (v2)\<close> and \<^verbatim>\<open>## Goals\<close>, so exactly one heading \<^verbatim>\<open>## Goals\<close>. The
  update of \<open>Goals\<close> writes the new section over \<^verbatim>\<open>## Goals (v2)\<close> and its body: the
  bytes before the heading \<^verbatim>\<open>## Goals\<close> are not those of the document, the old body
  \<open>Keep\<close> of that heading stays, and the result has two headings \<^verbatim>\<open>## Goals\<close>.
\<close>

theorem soul_update_overwrites_longer_heading:
  "heading_count ''Goals''
       (''## Goals (v2)'' @ [nl, nl] @ ''Old goals'' @ [nl] @ ''## Goals'' @ [nl, nl] @ ''Keep''
          @ [nl]) = 1
   \<and> contents (snd (soul_update example_host ''default''
         \<lparr>content = None, section = Some ''Goals'', sectionContent = Some ''New goals''\<rparr>
         (disk [(session_soul,
            ''## Goals (v2)'' @ [nl, nl] @ ''Old goals'' @ [nl] @ ''## Goals'' @ [nl, nl]
              @ ''Keep'' @ [nl])])))
       session_soul
     = Some (''## Goals'' @ [nl, nl] @ ''New goals'' @ [nl, nl] @ ''## Goals'' @ [nl, nl]
          @ ''Keep'' @ [nl])
   \<and> \<not> prefix (''## Goals (v2)'' @ [nl, nl] @ ''Old goals'' @ [nl])
         (''## Goals'' @ [nl, nl] @ ''New goals'' @ [nl, nl] @ ''## Goals'' @ [nl, nl]
            @ ''Keep'' @ [nl])
   \<and> heading_count ''Goals''
       (''## Goals'' @ [nl, nl] @ ''New goals'' @ [nl, nl] @ ''## Goals'' @ [nl, nl]
          @ ''Keep'' @ [nl]) = 2"
  by code_simp

text \<open>
  What the handler writes when it finds the text. Let the session file hold \<open>D\<close>, made of
  \<open>pre\<close>, an occurrence \<open>occ\<close> of the text \<^verbatim>\<open>## S\<close> (letters compared without case),
  \<open>body\<close> and \<open>post\<close>, where \<open>occ\<close> is the first occurrence (the text does not occur in
  \<open>pre\<close> followed by \<open>occ\<close> without its last character), \<open>post\<close> is empty or begins
  with a newline and \<^verbatim>\<open>## \<close>, and no newline with \<^verbatim>\<open>## \<close> begins inside \<open>body\<close>. When the
  new section holds no substitution, the handler writes \<open>pre\<close>, the new section and
  \<open>post\<close>.
\<close>

lemma soul_update_replaces_first_occurrence:
  fixes h :: host and sessionName :: string
  defines "soulPath \<equiv> join h [join h [SESSIONS_DIR h, sessionName], ''SOUL.md'']"
  assumes "\<not> truthy (content args)"
    and "section args = Some S" and "S \<noteq> []"
    and "sectionContent args = Some B" and "B \<noteq> []"
    and "contents fs soulPath = Some D" and "readable fs soulPath" and "writable fs soulPath"
    and "D = pre @ occ @ body @ post"
    and "map canonicalize occ = map canonicalize (''## '' @ S)"
    and "\<not> occurs_in (''## '' @ S) (pre @ butlast occ)"
    and "post = [] \<or> prefix (nl # ''## '') post"
    and "\<not> occurs_in (nl # ''## '') (body @ take 3 post)"
    and "\<not> has_substitution (''## '' @ S @ [nl, nl] @ B @ [nl])"
  shows "soul_update h sessionName args fs
     = (Inr (text_result (''SOUL.md section '' @ [dquote] @ S @ [dquote] @ '' updated'')),
        fs\<lparr>contents := (contents fs)(soulPath \<mapsto>
             pre @ (''## '' @ S @ [nl, nl] @ B @ [nl]) @ post)\<rparr>)"
proof -
  have "upsertSection D S B = Inr (pre @ ''## '' @ S @ [nl, nl] @ B @ [nl] @ post)"
    using assms(10-15) by (rule upsertSection_replace)
  then show ?thesis
    using assms(1-9)
    by (simp add: soul_update_def Let_def truthy_def existsSync_def readFileSync_def
        writeFileSync_def)
qed

text \<open>
  An example with a heading in lower case, a section after it and a dollar sign that is
  no substitution in the body.
\<close>

lemma soul_update_replaces_first_occurrence_example:
  "soul_update example_host ''default''
       \<lparr>content = None, section = Some ''Boundaries'', sectionContent = Some ''Costs $5''\<rparr>
       (disk [(session_soul,
          ''# SOUL.md'' @ [nl, nl] @ ''## boundaries'' @ [nl, nl] @ ''Old content'' @ [nl]
            @ ''## Goals'' @ [nl, nl] @ ''Ship'' @ [nl])])
     = (Inr (text_result (''SOUL.md section '' @ [dquote] @ ''Boundaries'' @ [dquote]
            @ '' updated'')),
        (disk [(session_soul,
          ''# SOUL.md'' @ [nl, nl] @ ''## boundaries'' @ [nl, nl] @ ''Old content'' @ [nl]
            @ ''## Goals'' @ [nl, nl] @ ''Ship'' @ [nl])])
          \<lparr>contents :=
             (contents (disk [(session_soul,
                ''# SOUL.md'' @ [nl, nl] @ ''## boundaries'' @ [nl, nl] @ ''Old content'' @ [nl]
                  @ ''## Goals'' @ [nl, nl] @ ''Ship'' @ [nl])]))
             (session_soul \<mapsto>
                (''# SOUL.md'' @ [nl, nl]) @ (''## Boundaries'' @ [nl, nl] @ ''Costs $5'' @ [nl])
                  @ ([nl] @ ''## Goals'' @ [nl, nl] @ ''Ship'' @ [nl]))\<rparr>)"
proof -
  let ?pre = "''# SOUL.md'' @ [nl, nl]"
  let ?h = "''## boundaries''"
  let ?body = "[nl, nl] @ ''Old content''"
  let ?post = "[nl] @ ''## Goals'' @ [nl, nl] @ ''Ship'' @ [nl]"
  let ?D = "''# SOUL.md'' @ [nl, nl] @ ''## boundaries'' @ [nl, nl] @ ''Old content'' @ [nl]
      @ ''## Goals'' @ [nl, nl] @ ''Ship'' @ [nl]"
  let ?args = "\<lparr>content = None, section = Some ''Boundaries'', sectionContent = Some ''Costs $5''\<rparr>"
  have args: "\<not> truthy (content ?args)" "section ?args = Some ''Boundaries''"
    "''Boundaries'' \<noteq> []" "sectionContent ?args = Some ''Costs $5''" "''Costs $5'' \<noteq> []"
    by (simp_all add: truthy_def)
  have disk_facts:
    "contents (disk [(session_soul, ?D)])
       (join example_host [join example_host [SESSIONS_DIR example_host, ''default''], ''SOUL.md''])
     = Some ?D"
    "readable (disk [(session_soul, ?D)])
       (join example_host [join example_host [SESSIONS_DIR example_host, ''default''], ''SOUL.md''])"
    "writable (disk [(session_soul, ?D)])
       (join example_host [join example_host [SESSIONS_DIR example_host, ''default''], ''SOUL.md''])"
    by (simp_all add: disk_def example_paths)
  have split: "?D = ?pre @ ?h @ ?body @ ?post"
    by simp
  have heading: "map canonicalize ?h = map canonicalize (''## '' @ ''Boundaries'')"
    by code_simp
  have first: "\<not> occurs_in (''## '' @ ''Boundaries'') (?pre @ butlast ?h)"
    by code_simp
  have boundary: "?post = [] \<or> prefix (nl # ''## '') ?post"
    by simp
  have inside: "\<not> occurs_in (nl # ''## '') (?body @ take 3 ?post)"
    by code_simp
  have plain: "\<not> has_substitution (''## '' @ ''Boundaries'' @ [nl, nl] @ ''Costs $5'' @ [nl])"
    by code_simp
  show ?thesis
    using soul_update_replaces_first_occurrence[OF args disk_facts split heading first
        boundary inside plain]
    by (simp add: example_paths)
qed

section \<open>Names with metacharacters\<close>

text \<open>
  Claim C2. The escaped name is a sequence of literal characters for every name
  (\<open>new_sectionRegex_escapeSection\<close>), so no character of the name is an operator of the
  pattern. The replacement text of \<open>String.prototype.replace\<close> is not escaped: when the
  section exists, a name with \<^verbatim>\<open>$$\<close> is written with one dollar sign. The session file
  holds the section \<^verbatim>\<open>## Cost ($$)\<close>; after the update of \<^verbatim>\<open>Cost ($$)\<close> the heading is
  \<^verbatim>\<open>## Cost ($)\<close>.
\<close>

theorem soul_update_dollar_in_name:
  "contents (snd (soul_update example_host ''default''
       \<lparr>content = None, section = Some ''Cost ($$)'', sectionContent = Some ''New''\<rparr>
       (disk [(session_soul,
          ''# SOUL.md'' @ [nl, nl] @ ''## Cost ($$)'' @ [nl, nl] @ ''Old'' @ [nl])])))
     session_soul
   = Some (''# SOUL.md'' @ [nl, nl] @ ''## Cost ($)'' @ [nl, nl] @ ''New'' @ [nl])"
  by code_simp

text \<open>
  The body goes through the same replacement text: with the body \<^verbatim>\<open>$&\<close> the old section
  is written back inside the new one.
\<close>

lemma soul_update_dollar_in_body:
  "contents (snd (soul_update example_host ''default''
       \<lparr>content = None, section = Some ''Boundaries'', sectionContent = Some ''$&''\<rparr>
       (disk [(session_soul,
          ''# SOUL.md'' @ [nl, nl] @ ''## Boundaries'' @ [nl, nl] @ ''Old content'' @ [nl])])))
     session_soul
   = Some (''# SOUL.md'' @ [nl, nl] @ ''## Boundaries'' @ [nl, nl]
        @ (''## Boundaries'' @ [nl, nl] @ ''Old content'' @ [nl]) @ [nl])"
  by code_simp

section \<open>Appending a section\<close>

text \<open>
  Claim C3. For a document without a heading \<^verbatim>\<open>## S\<close>, the update of \<open>S\<close> is to append
  the new section, so that the old document is a prefix of the new one. The pattern has
  nothing after the escaped name, so it also matches a longer heading that begins with
  the name. The session file below has the heading \<^verbatim>\<open>## Goals (v2)\<close> and no heading
  \<^verbatim>\<open>## Goals\<close>. The update of \<open>Goals\<close> does not append: it writes the new section over
  \<^verbatim>\<open>## Goals (v2)\<close> and its body, and the old document is no prefix of the new one.
\<close>

theorem soul_update_replaces_instead_of_appending:
  "heading_count ''Goals''
       (''# SOUL.md'' @ [nl, nl] @ ''## Goals (v2)'' @ [nl, nl] @ ''Old goals'' @ [nl]) = 0
   \<and> contents (snd (soul_update example_host ''default''
         \<lparr>content = None, section = Some ''Goals'', sectionContent = Some ''New goals''\<rparr>
         (disk [(session_soul,
            ''# SOUL.md'' @ [nl, nl] @ ''## Goals (v2)'' @ [nl, nl] @ ''Old goals'' @ [nl])])))
       session_soul
     = Some (''# SOUL.md'' @ [nl, nl] @ ''## Goals'' @ [nl, nl] @ ''New goals'' @ [nl])
   \<and> \<not> prefix (''# SOUL.md'' @ [nl, nl] @ ''## Goals (v2)'' @ [nl, nl] @ ''Old goals'' @ [nl])
         (''# SOUL.md'' @ [nl, nl] @ ''## Goals'' @ [nl, nl] @ ''New goals'' @ [nl])"
  by code_simp

text \<open>
  What the handler writes when it does not find the text. Let \<open>section\<close> be \<open>S\<close> and
  \<open>sectionContent\<close> be \<open>B\<close>, both non-empty, \<open>content\<close> missing or empty, and the session
  path writable. When the session file holds \<open>D\<close> and the text \<^verbatim>\<open>## S\<close> occurs nowhere in
  \<open>D\<close>, letters compared without case, the handler writes \<open>D\<close> followed by a newline,
  \<^verbatim>\<open>## S\<close>, an empty line, \<open>B\<close> and a newline. When there is no session file, it writes
  the same block after the default document, the title line
  \<^verbatim>\<open># SOUL.md - Persona & Boundaries\<close> and an empty line.
\<close>

lemma soul_update_appends_absent_section:
  assumes "\<not> truthy (content args)"
    and "section args = Some S" and "S \<noteq> []"
    and "sectionContent args = Some B" and "B \<noteq> []"
  shows "let soulPath = join h [join h [SESSIONS_DIR h, sessionName], ''SOUL.md''];
       newSection = ''## '' @ S @ [nl, nl] @ B @ [nl];
       report = Inr (text_result (''SOUL.md section '' @ [dquote] @ S @ [dquote] @ '' updated''))
   in writable fs soulPath \<longrightarrow>
        (\<forall>D. contents fs soulPath = Some D \<and> readable fs soulPath
             \<and> \<not> occurs_in (''## '' @ S) D \<longrightarrow>
           soul_update h sessionName args fs
             = (report, fs\<lparr>contents := (contents fs)(soulPath \<mapsto> D @ [nl] @ newSection)\<rparr>))
      \<and> (contents fs soulPath = None \<longrightarrow>
           soul_update h sessionName args fs
             = (report, fs\<lparr>contents := (contents fs)(soulPath \<mapsto>
                  (''# SOUL.md - Persona & Boundaries'' @ [nl, nl]) @ [nl] @ newSection)\<rparr>))"
proof -
  have new: "upsertSection default_document S B
      = Inr (default_document @ [nl] @ ''## '' @ S @ [nl, nl] @ B @ [nl])"
    by (rule upsertSection_append) (rule default_document_no_heading)
  show ?thesis
    using assms new
    by (auto simp: soul_update_def Let_def truthy_def existsSync_def readFileSync_def
        writeFileSync_def upsertSection_append default_document_def)
qed

text \<open>
  The example of the tests, a name with brackets, and the first update of a session
  without a file.
\<close>

lemma soul_update_appends_absent_section_example:
  "soul_update example_host ''default''
       \<lparr>content = None, section = Some ''Rules [strict]'', sectionContent = Some ''Be precise''\<rparr>
       (disk [(session_soul, ''# SOUL.md'' @ [nl, nl] @ ''## Existing'' @ [nl, nl] @ ''Stuff'' @ [nl])])
     = (Inr (text_result (''SOUL.md section '' @ [dquote] @ ''Rules [strict]'' @ [dquote]
            @ '' updated'')),
        (disk [(session_soul, ''# SOUL.md'' @ [nl, nl] @ ''## Existing'' @ [nl, nl] @ ''Stuff'' @ [nl])])
          \<lparr>contents :=
             (contents (disk [(session_soul,
                 ''# SOUL.md'' @ [nl, nl] @ ''## Existing'' @ [nl, nl] @ ''Stuff'' @ [nl])]))
             (session_soul \<mapsto>
                (''# SOUL.md'' @ [nl, nl] @ ''## Existing'' @ [nl, nl] @ ''Stuff'' @ [nl]) @ [nl]
                  @ ''## Rules [strict]'' @ [nl, nl] @ ''Be precise'' @ [nl])\<rparr>)
   \<and> soul_update example_host ''default''
       \<lparr>content = None, section = Some ''Boundaries'', sectionContent = Some ''Be kind''\<rparr>
       (disk [])
     = (Inr (text_result (''SOUL.md section '' @ [dquote] @ ''Boundaries'' @ [dquote]
            @ '' updated'')),
        (disk [])\<lparr>contents := (contents (disk []))(session_soul \<mapsto>
            (''# SOUL.md - Persona & Boundaries'' @ [nl, nl]) @ [nl]
              @ ''## Boundaries'' @ [nl, nl] @ ''Be kind'' @ [nl])\<rparr>)"
proof -
  let ?D = "''# SOUL.md'' @ [nl, nl] @ ''## Existing'' @ [nl, nl] @ ''Stuff'' @ [nl]"
  let ?a = "\<lparr>content = None, section = Some ''Rules [strict]'',
      sectionContent = Some ''Be precise''\<rparr>"
  let ?b = "\<lparr>content = None, section = Some ''Boundaries'', sectionContent = Some ''Be kind''\<rparr>"
  have absent: "\<not> occurs_in (''## '' @ ''Rules [strict]'') ?D"
    by code_simp
  have disk_facts: "contents (disk [(session_soul, ?D)]) session_soul = Some ?D"
    "readable (disk [(session_soul, ?D)]) session_soul"
    "writable (disk [(session_soul, ?D)]) session_soul"
    "contents (disk []) session_soul = None" "writable (disk []) session_soul"
    by (simp_all add: disk_def)
  have a: "\<not> truthy (content ?a)" "section ?a = Some ''Rules [strict]''" "''Rules [strict]'' \<noteq> []"
    "sectionContent ?a = Some ''Be precise''" "''Be precise'' \<noteq> []"
    by (simp_all add: truthy_def)
  have b: "\<not> truthy (content ?b)" "section ?b = Some ''Boundaries''" "''Boundaries'' \<noteq> []"
    "sectionContent ?b = Some ''Be kind''" "''Be kind'' \<noteq> []"
    by (simp_all add: truthy_def)
  show ?thesis
    using soul_update_appends_absent_section[OF a, of example_host "''default''"
        "disk [(session_soul, ?D)]"]
      soul_update_appends_absent_section[OF b, of example_host "''default''" "disk []"]
      absent disk_facts
    by (simp add: Let_def example_paths)
qed

section \<open>Resolution of the persona file\<close>

text \<open>
  Claim C4. For every session identifier and filename, \<open>resolveRootFile\<close> returns the
  global path with the global tier whenever the global file exists, whether or not the
  session file exists as well; otherwise the session path with the session tier if that
  file exists; otherwise the session path marked as not existing. The function has no
  error result: \<open>existsSync\<close> is its only call into the file system and does not throw,
  so a missing file is an ordinary result.
\<close>

theorem resolveRootFile_tiers:
  "let globalPath = join h [GLOBAL_IDENTITY_DIR h, filename];
       sessionDir = join h [SESSIONS_DIR h, session];
       sessionPath = join h [sessionDir, filename];
       r = resolveRootFile h fs sessionDir filename
   in (existsSync fs globalPath \<longrightarrow> r = \<lparr>path = globalPath, exists = True, isGlobal = True\<rparr>)
    \<and> (\<not> existsSync fs globalPath \<and> existsSync fs sessionPath \<longrightarrow>
          r = \<lparr>path = sessionPath, exists = True, isGlobal = False\<rparr>)
    \<and> (\<not> existsSync fs globalPath \<and> \<not> existsSync fs sessionPath \<longrightarrow>
          r = \<lparr>path = sessionPath, exists = False, isGlobal = False\<rparr>)"
  by (simp add: resolveRootFile_def Let_def)

theorem resolveRootFile_tiers_witness:
  "resolveRootFile example_host (disk [(global_soul, ''G''), (session_soul, ''S'')])
       (join example_host [SESSIONS_DIR example_host, ''default'']) ''SOUL.md''
     = \<lparr>path = global_soul, exists = True, isGlobal = True\<rparr>
   \<and> resolveRootFile example_host (disk [(session_soul, ''S'')])
       (join example_host [SESSIONS_DIR example_host, ''default'']) ''SOUL.md''
     = \<lparr>path = session_soul, exists = True, isGlobal = False\<rparr>
   \<and> resolveRootFile example_host (disk [])
       (join example_host [SESSIONS_DIR example_host, ''default'']) ''SOUL.md''
     = \<lparr>path = session_soul, exists = False, isGlobal = False\<rparr>"
proof -
  have both: "existsSync (disk [(global_soul, ''G''), (session_soul, ''S'')]) global_soul"
    by (simp add: existsSync_def disk_def)
  have one: "\<not> existsSync (disk [(session_soul, ''S'')]) global_soul"
    "existsSync (disk [(session_soul, ''S'')]) session_soul"
    using example_paths(4) by (simp_all add: existsSync_def disk_def)
  have none: "\<not> existsSync (disk []) global_soul" "\<not> existsSync (disk []) session_soul"
    by (simp_all add: existsSync_def disk_def)
  show ?thesis
    using resolveRootFile_tiers[of example_host "''SOUL.md''" "''default''"
        "disk [(global_soul, ''G''), (session_soul, ''S'')]"]
      resolveRootFile_tiers[of example_host "''SOUL.md''" "''default''" "disk [(session_soul, ''S'')]"]
      resolveRootFile_tiers[of example_host "''SOUL.md''" "''default''" "disk []"]
      both one none
    by (simp add: Let_def example_paths)
qed

section \<open>The context provider on silent tiers\<close>

text \<open>
  Claim C5, as amended. \<open>getContext\<close> returns \<open>null\<close> exactly when each of the two
  tiers, taken by itself, has no file, a file whose read throws, or a blank file; the two
  tiers need not be silent for the same reason. When the global file exists and its read
  throws or its content is blank, the session tier decides: a readable session file that
  is not blank is returned with the session heading and location, and no error leaves
  \<open>getContext\<close>.
\<close>

theorem getContext_null_iff:
  "let globalPath = join h [GLOBAL_IDENTITY_DIR h, ''SOUL.md''];
       sessionPath = join h [SESSIONS_DIR h, session, ''SOUL.md'']
   in (getContext h fs session = None \<longleftrightarrow>
         tier_silent fs globalPath \<and> tier_silent fs sessionPath)
    \<and> (read_throws fs globalPath \<or> blank_file fs globalPath \<longrightarrow>
         (\<forall>raw. contents fs sessionPath = Some raw \<and> readable fs sessionPath \<and> \<not> blank raw \<longrightarrow>
            getContext h fs session =
              Some \<lparr>part_content = ''## Soul'' @ [nl, nl] @ raw, role = ''system'',
                    metadata = \<lparr>source = ''soul'', priority = 8, location = ''session''\<rparr>\<rparr>))"
  by (auto simp: getContext_def Let_def tier_silent_def read_throws_def blank_file_def
      existsSync_def readFileSync_def trim_Nil_iff split: option.splits sum.splits if_splits)

theorem getContext_null_iff_witness:
  "getContext example_host
       (disk [(global_soul, [CHR '' '', nl]), (session_soul, ''Session persona'')]) ''default''
     = Some \<lparr>part_content = ''## Soul'' @ [nl, nl] @ ''Session persona'', role = ''system'',
             metadata = \<lparr>source = ''soul'', priority = 8, location = ''session''\<rparr>\<rparr>
   \<and> getContext example_host
       (locked global_soul (disk [(global_soul, ''Global persona''), (session_soul, ''Session persona'')]))
       ''default''
     = Some \<lparr>part_content = ''## Soul'' @ [nl, nl] @ ''Session persona'', role = ''system'',
             metadata = \<lparr>source = ''soul'', priority = 8, location = ''session''\<rparr>\<rparr>"
proof -
  let ?a = "disk [(global_soul, [CHR '' '', nl]), (session_soul, ''Session persona'')]"
  let ?b = "locked global_soul
      (disk [(global_soul, ''Global persona''), (session_soul, ''Session persona'')])"
  have a: "blank_file ?a global_soul" "contents ?a session_soul = Some ''Session persona''"
    "readable ?a session_soul"
    by (simp_all add: blank_file_def blank_def is_white_space_def disk_def example_paths)
  have b: "read_throws ?b global_soul" "contents ?b session_soul = Some ''Session persona''"
    "readable ?b session_soul"
    by (simp_all add: read_throws_def existsSync_def locked_def disk_def example_paths)
  have n: "\<not> blank ''Session persona''"
    by (simp add: blank_def is_white_space_def)
  show ?thesis
    using getContext_null_iff[of example_host "''default''" ?a]
      getContext_null_iff[of example_host "''default''" ?b] a b n
    by (simp add: Let_def example_paths)
qed

text \<open>
  The claim as it is stated lists three cases for \<open>null\<close>: no file at either tier, every
  existing file blank, the read throwing at both tiers. With a global file that cannot be
  read and no session file the result is \<open>null\<close> and none of the three cases holds.
\<close>

theorem getContext_mixed_tiers_counterexample:
  "getContext example_host (locked global_soul (disk [(global_soul, ''Global persona'')]))
       ''default'' = None
   \<and> \<not> stated_null_cases (locked global_soul (disk [(global_soul, ''Global persona'')]))
         global_soul session_soul"
  by (simp add: getContext_def Let_def example_paths stated_null_cases_def read_throws_def
      blank_file_def existsSync_def readFileSync_def locked_def disk_def)

section \<open>Full replacement\<close>

text \<open>
  Claim C6, as amended. When \<open>content\<close> is given and is not the empty string, the handler
  writes \<open>content\<close> as the whole new content of the session file, whatever \<open>section\<close>
  and \<open>sectionContent\<close> are, and reports \<open>SOUL.md replaced entirely\<close>; a write that
  fails leaves the handler as an exception and changes nothing.
\<close>

theorem soul_update_content_replaces_file:
  assumes "content args = Some c" and "c \<noteq> []"
  shows "let soulPath = join h [join h [SESSIONS_DIR h, sessionName], ''SOUL.md'']
    in soul_update h sessionName args fs =
       (if writable fs soulPath
        then (Inr (text_result ''SOUL.md replaced entirely''),
              fs\<lparr>contents := (contents fs)(soulPath \<mapsto> c)\<rparr>)
        else (Inl WriteFailed, fs))"
  using assms by (simp add: soul_update_def Let_def truthy_def writeFileSync_def)

theorem soul_update_content_replaces_file_witness:
  "soul_update example_host ''default''
       \<lparr>content = Some ''I am new'', section = Some ''Boundaries'', sectionContent = Some ''Be kind''\<rparr>
       (disk [(session_soul, ''# Old'')])
     = (Inr (text_result ''SOUL.md replaced entirely''),
        (disk [(session_soul, ''# Old'')])
          \<lparr>contents := (contents (disk [(session_soul, ''# Old'')]))(session_soul \<mapsto> ''I am new'')\<rparr>)"
proof -
  have w: "writable (disk [(session_soul, ''# Old'')]) session_soul"
    by (simp add: disk_def)
  have c: "content \<lparr>content = Some ''I am new'', section = Some ''Boundaries'',
      sectionContent = Some ''Be kind''\<rparr> = Some ''I am new''" "''I am new'' \<noteq> []"
    by simp_all
  show ?thesis
    using soul_update_content_replaces_file[OF c, of example_host "''default''"
        "disk [(session_soul, ''# Old'')]"] w
    by (simp add: Let_def example_paths)
qed

text \<open>
  The claim as it is stated holds for every argument object in which \<open>content\<close> is
  provided. With \<open>content\<close> provided as the empty string the handler answers with the
  guidance text and the session file keeps its old content.
\<close>

theorem soul_update_empty_content_counterexample:
  "content \<lparr>content = Some [], section = None, sectionContent = None\<rparr> \<noteq> None
   \<and> fst (soul_update example_host ''default''
         \<lparr>content = Some [], section = None, sectionContent = None\<rparr>
         (disk [(session_soul, ''# Old'')]))
       = Inr (text_result guidance)
   \<and> fst (soul_update example_host ''default''
         \<lparr>content = Some [], section = None, sectionContent = None\<rparr>
         (disk [(session_soul, ''# Old'')]))
       \<noteq> Inr (text_result ''SOUL.md replaced entirely'')
   \<and> contents (snd (soul_update example_host ''default''
         \<lparr>content = Some [], section = None, sectionContent = None\<rparr>
         (disk [(session_soul, ''# Old'')]))) session_soul
       = Some ''# Old''"
  by (simp add: soul_update_def Let_def truthy_def text_result_def guidance_def disk_def)

section \<open>Arguments that fit neither combination\<close>

text \<open>
  Claim C7. When \<open>content\<close> is missing or empty and \<open>section\<close> and
  \<open>sectionContent\<close> are not both given and non-empty (so for \<open>{}\<close>, for \<open>section\<close>
  alone and for \<open>sectionContent\<close> alone), the handler returns normally with the text
  that asks for \<open>content\<close> or \<open>section\<close> and \<open>sectionContent\<close>, the result object
  has no property \<open>isError\<close>, and the file system is unchanged.
\<close>

theorem soul_update_guidance:
  assumes "\<not> truthy (content args)"
    and "\<not> (truthy (section args) \<and> truthy (sectionContent args))"
  shows "soul_update h sessionName args fs = (Inr (text_result guidance), fs)
    \<and> map_of (text_result guidance) ''isError'' = None
    \<and> text_result guidance =
        [(''content'', [TextItem (''Provide '' @ [apostrophe] @ ''content'' @ [apostrophe]
            @ '' or '' @ [apostrophe] @ ''section'' @ [apostrophe] @ ''+'' @ [apostrophe]
            @ ''sectionContent'' @ [apostrophe])])]"
  using assms by (auto simp: soul_update_def Let_def text_result_def guidance_def)

theorem soul_update_guidance_witness:
  "soul_update example_host ''default''
       \<lparr>content = None, section = None, sectionContent = None\<rparr> (disk [])
     = (Inr (text_result guidance), disk [])
   \<and> soul_update example_host ''default''
       \<lparr>content = None, section = Some ''Boundaries'', sectionContent = None\<rparr> (disk [])
     = (Inr (text_result guidance), disk [])
   \<and> soul_update example_host ''default''
       \<lparr>content = None, section = None, sectionContent = Some ''Be kind''\<rparr> (disk [])
     = (Inr (text_result guidance), disk [])"
proof -
  have a: "soul_update example_host ''default''
       \<lparr>content = None, section = None, sectionContent = None\<rparr> (disk [])
     = (Inr (text_result guidance), disk [])"
    by (rule soul_update_guidance[THEN conjunct1]) (simp_all add: truthy_def)
  have b: "soul_update example_host ''default''
       \<lparr>content = None, section = Some ''Boundaries'', sectionContent = None\<rparr> (disk [])
     = (Inr (text_result guidance), disk [])"
    by (rule soul_update_guidance[THEN conjunct1]) (simp_all add: truthy_def)
  have c: "soul_update example_host ''default''
       \<lparr>content = None, section = None, sectionContent = Some ''Be kind''\<rparr> (disk [])
     = (Inr (text_result guidance), disk [])"
    by (rule soul_update_guidance[THEN conjunct1]) (simp_all add: truthy_def)
  from a b c show ?thesis by blast
qed

section \<open>The target of a write\<close>

text \<open>
  Claim C8. Whatever the arguments, \<open>soul.update\<close> leaves the file system as it is or
  changes the content at the session path and nothing else: every other path keeps its
  content, and so does the global file, which lies at another path than the session file.
\<close>

theorem soul_update_writes_session_file_only:
  "let soulPath = join h [join h [SESSIONS_DIR h, sessionName], ''SOUL.md''];
       globalPath = join h [GLOBAL_IDENTITY_DIR h, ''SOUL.md''];
       fs' = snd (soul_update h sessionName args fs)
   in (fs' = fs \<or> (\<exists>d. fs' = fs\<lparr>contents := (contents fs)(soulPath \<mapsto> d)\<rparr>))
    \<and> (\<forall>p. p \<noteq> soulPath \<longrightarrow> contents fs' p = contents fs p)
    \<and> (globalPath \<noteq> soulPath \<longrightarrow> contents fs' globalPath = contents fs globalPath)"
  by (auto simp: soul_update_def Let_def writeFileSync_def split: sum.splits if_splits)

theorem soul_update_writes_session_file_only_witness:
  "contents (snd (soul_update example_host ''default''
       \<lparr>content = Some ''I am new'', section = None, sectionContent = None\<rparr>
       (disk [(global_soul, ''Global persona'')]))) global_soul
     = Some ''Global persona''
   \<and> contents (snd (soul_update example_host ''default''
       \<lparr>content = None, section = Some ''Boundaries'', sectionContent = Some ''Be kind''\<rparr>
       (disk [(global_soul, ''Global persona'')]))) global_soul
     = Some ''Global persona''"
proof -
  let ?fs = "disk [(global_soul, ''Global persona'')]"
  have "contents (snd (soul_update example_host ''default''
       \<lparr>content = Some ''I am new'', section = None, sectionContent = None\<rparr> ?fs)) global_soul
     = contents ?fs global_soul"
    using soul_update_writes_session_file_only[of example_host "''default''"
        "\<lparr>content = Some ''I am new'', section = None, sectionContent = None\<rparr>" ?fs]
    by (simp add: Let_def example_paths)
  moreover have "contents (snd (soul_update example_host ''default''
       \<lparr>content = None, section = Some ''Boundaries'', sectionContent = Some ''Be kind''\<rparr> ?fs))
       global_soul
     = contents ?fs global_soul"
    using soul_update_writes_session_file_only[of example_host "''default''"
        "\<lparr>content = None, section = Some ''Boundaries'', sectionContent = Some ''Be kind''\<rparr>" ?fs]
    by (simp add: Let_def example_paths)
  ultimately show ?thesis by (simp add: disk_def)
qed

section \<open>Reading the persona\<close>

text \<open>
  Claim C9. \<open>soul.get\<close> is to return \<open>No SOUL.md found.\<close> when neither tier has a file,
  and the raw content of the file after a line that names its tier when a file exists.
  The handler calls \<open>readFileSync\<close> outside any \<open>try\<close>: when the resolved file exists
  and its read throws, the handler throws and returns nothing. Below, the global file
  exists and cannot be read, and the session file holds \<open>Session persona\<close> and can be
  read. \<open>soul.get\<close> throws; \<open>getContext\<close> on the same file system catches the throw and
  returns the session file.
\<close>

theorem soul_get_throws_on_unreadable_file:
  "existsSync
       (locked global_soul
          (disk [(global_soul, ''Global persona''), (session_soul, ''Session persona'')]))
       global_soul
   \<and> contents
       (locked global_soul
          (disk [(global_soul, ''Global persona''), (session_soul, ''Session persona'')]))
       session_soul = Some ''Session persona''
   \<and> readable
       (locked global_soul
          (disk [(global_soul, ''Global persona''), (session_soul, ''Session persona'')]))
       session_soul
   \<and> soul_get example_host ''default''
       (locked global_soul
          (disk [(global_soul, ''Global persona''), (session_soul, ''Session persona'')]))
     = Inl ReadFailed
   \<and> getContext example_host
       (locked global_soul
          (disk [(global_soul, ''Global persona''), (session_soul, ''Session persona'')]))
       ''default''
     = Some \<lparr>part_content = ''## Soul'' @ [nl, nl] @ ''Session persona'', role = ''system'',
             metadata = \<lparr>source = ''soul'', priority = 8, location = ''session''\<rparr>\<rparr>"
  by code_simp

text \<open>
  The result of \<open>soul.get\<close> in every case. Neither tier has a file: the text
  \<open>No SOUL.md found.\<close>. The global file exists: its raw content after the line
  \<open>[Source: global]\<close> and an empty line when the read succeeds, a throw when it does not,
  whatever the session tier holds. Only the session file exists: its raw content after
  \<open>[Source: session]\<close> when the read succeeds, a throw when it does not. Content is
  returned as it was read, also when it is all white space.
\<close>

lemma soul_get_result:
  "let globalPath = join h [GLOBAL_IDENTITY_DIR h, ''SOUL.md''];
       sessionPath = join h [join h [SESSIONS_DIR h, sessionName], ''SOUL.md'']
   in (\<not> existsSync fs globalPath \<and> \<not> existsSync fs sessionPath \<longrightarrow>
         soul_get h sessionName fs = Inr [(''content'', [TextItem ''No SOUL.md found.''])])
    \<and> (\<forall>raw. contents fs globalPath = Some raw \<and> readable fs globalPath \<longrightarrow>
         soul_get h sessionName fs
           = Inr [(''content'', [TextItem (''[Source: global]'' @ [nl, nl] @ raw)])])
    \<and> (existsSync fs globalPath \<and> \<not> readable fs globalPath \<longrightarrow>
         soul_get h sessionName fs = Inl ReadFailed)
    \<and> (\<forall>raw. contents fs globalPath = None \<and> contents fs sessionPath = Some raw
           \<and> readable fs sessionPath \<longrightarrow>
         soul_get h sessionName fs
           = Inr [(''content'', [TextItem (''[Source: session]'' @ [nl, nl] @ raw)])])
    \<and> (\<not> existsSync fs globalPath \<and> existsSync fs sessionPath \<and> \<not> readable fs sessionPath
          \<longrightarrow>
         soul_get h sessionName fs = Inl ReadFailed)"
  by (auto simp: soul_get_def resolveRootFile_def Let_def existsSync_def readFileSync_def
      text_result_def)

text \<open>
  The scenario of the specification, the case without files, and a global file of white
  space returned as it is.
\<close>

lemma soul_get_result_example:
  "soul_get example_host ''default'' (disk [])
     = Inr (text_result ''No SOUL.md found.'')
   \<and> soul_get example_host ''default'' (disk [(session_soul, ''Session persona'')])
     = Inr (text_result (''[Source: session]'' @ [nl, nl] @ ''Session persona''))
   \<and> soul_get example_host ''default''
       (disk [(global_soul, [CHR '' '', nl]), (session_soul, ''Session persona'')])
     = Inr (text_result (''[Source: global]'' @ [nl, nl] @ [CHR '' '', nl]))"
  by code_simp

section \<open>Empty strings as arguments\<close>

text \<open>
  Claim C10. The handler of \<open>soul.update\<close> treats an empty string as a missing argument.
  With \<open>content\<close> empty it behaves as it does without \<open>content\<close> and never reports a
  full replacement; with \<open>content\<close> missing or empty and \<open>sectionContent\<close> empty it
  writes nothing and returns the guidance text, whatever \<open>section\<close> is.
\<close>

theorem soul_update_empty_string_as_missing:
  "(content args = Some [] \<longrightarrow>
      soul_update h sessionName args fs = soul_update h sessionName (args\<lparr>content := None\<rparr>) fs
      \<and> fst (soul_update h sessionName args fs) \<noteq> Inr (text_result ''SOUL.md replaced entirely''))
   \<and> (\<not> truthy (content args) \<and> sectionContent args = Some [] \<longrightarrow>
      soul_update h sessionName args fs = (Inr (text_result guidance), fs))"
  by (auto simp: soul_update_def Let_def truthy_def text_result_def guidance_def
      split: sum.splits if_splits)

theorem soul_update_empty_string_as_missing_witness:
  "soul_update example_host ''default''
       \<lparr>content = Some [], section = Some ''Boundaries'', sectionContent = Some ''Be kind''\<rparr>
       (disk [])
     = soul_update example_host ''default''
       \<lparr>content = None, section = Some ''Boundaries'', sectionContent = Some ''Be kind''\<rparr>
       (disk [])
   \<and> soul_update example_host ''default''
       \<lparr>content = None, section = Some ''Boundaries'', sectionContent = Some []\<rparr>
       (disk [(session_soul, ''# Me'')])
     = (Inr (text_result guidance), disk [(session_soul, ''# Me'')])"
  using soul_update_empty_string_as_missing[of
      "\<lparr>content = Some [], section = Some ''Boundaries'', sectionContent = Some ''Be kind''\<rparr>"
      example_host "''default''" "disk []"]
    soul_update_empty_string_as_missing[of
      "\<lparr>content = None, section = Some ''Boundaries'', sectionContent = Some []\<rparr>"
      example_host "''default''" "disk [(session_soul, ''# Me'')]"]
  by (simp add: truthy_def)

end
